theory Spec2Isabelle
  imports Main "HOL-Library.Sublist"
begin

section \<open>JavaScript string primitives used by the worktree routes\<close>

text \<open>
  Strings are lists of code units; a \<^typ>\<open>char\<close> stands for a code unit below 256.
  \<open>String.prototype.trim\<close> removes white space and line terminators from both ends; in
  this range these are TAB, LF, VT, FF, CR, SPACE and NBSP.
\<close>

definition is_ws :: "char \<Rightarrow> bool" where
  "is_ws c = (c = CHR 0x09 \<or> c = CHR 0x0A \<or> c = CHR 0x0B \<or> c = CHR 0x0C \<or> c = CHR 0x0D
              \<or> c = CHR 0x20 \<or> c = CHR 0xA0)"

definition trim :: "string \<Rightarrow> string" where
  "trim s = rev (dropWhile is_ws (rev (dropWhile is_ws s)))"

text \<open>\<open>s.split("\n")\<close>: the pieces between line feeds; the empty string gives one empty piece.\<close>

fun split_nl :: "string \<Rightarrow> string list" where
  "split_nl [] = [[]]"
| "split_nl (c # cs) =
     (if c = CHR 0x0A then [] # split_nl cs
      else (case split_nl cs of
              [] \<Rightarrow> [[c]]
            | l # ls \<Rightarrow> (c # l) # ls))"

text \<open>\<open>s.startsWith(p)\<close>, \<open>s.slice(n)\<close>, \<open>s.includes(p)\<close> and \<open>s.replace(p, r)\<close> with a
  string pattern (the first occurrence only).\<close>

definition startsWith :: "string \<Rightarrow> string \<Rightarrow> bool" where
  "startsWith s p = prefix p s"

definition slice :: "string \<Rightarrow> nat \<Rightarrow> string" where
  "slice s n = drop n s"

fun includes_str :: "string \<Rightarrow> string \<Rightarrow> bool" where
  "includes_str [] p = (p = [])"
| "includes_str (c # cs) p = (prefix p (c # cs) \<or> includes_str cs p)"

fun replace :: "string \<Rightarrow> string \<Rightarrow> string \<Rightarrow> string" where
  "replace [] p r = (if p = [] then r else [])"
| "replace (c # cs) p r =
     (if prefix p (c # cs) then r @ drop (length p) (c # cs)
      else c # replace cs p r)"

text \<open>Truthiness of an optional string (\<open>undefined\<close> and \<open>""\<close> are falsy) and of an
  optional boolean.\<close>

definition truthy :: "string option \<Rightarrow> bool" where
  "truthy v = (case v of None \<Rightarrow> False | Some s \<Rightarrow> s \<noteq> [])"

definition truthy_flag :: "bool option \<Rightarrow> bool" where
  "truthy_flag v = (case v of None \<Rightarrow> False | Some b \<Rightarrow> b)"

text \<open>Reading an optional string that a truthiness test has shown to be present.\<close>

definition str_of :: "string option \<Rightarrow> string" where
  "str_of v = (case v of None \<Rightarrow> [] | Some s \<Rightarrow> s)"

section \<open>External commands, their failures and the record of what was run\<close>

text \<open>
  \<open>execAsync(command, {cwd})\<close> either resolves with the standard output of the command
  or rejects with an error object, of which the routes read \<open>stderr\<close> and \<open>message\<close>.
\<close>

record exec_error =
  err_stderr :: "string option"
  err_message :: "string option"

type_synonym exec_result = "exec_error + string"

text \<open>
  The version-control tool is a parameter: a function from the command line, the working
  directory and the state of the outside world to a result and a new world. Every call and
  its outcome is appended to a trace, as is every call of \<open>logError\<close>.
\<close>

type_synonym 'w shell = "string \<Rightarrow> string \<Rightarrow> 'w \<Rightarrow> exec_result \<times> 'w"

datatype event =
    Exec (ev_cmd: string) (ev_cwd: string) (ev_result: exec_result)
  | Logged exec_error string

type_synonym 'w st = "'w \<times> event list"

definition execAsync :: "'w shell \<Rightarrow> string \<Rightarrow> string \<Rightarrow> 'w st \<Rightarrow> exec_result \<times> 'w st" where
  "execAsync sh cmd cwd s =
     (case sh cmd cwd (fst s) of
        (r, w') \<Rightarrow> (r, (w', snd s @ [Exec cmd cwd r])))"

definition logError :: "exec_error \<Rightarrow> string \<Rightarrow> 'w st \<Rightarrow> 'w st" where
  "logError err ctx s = (fst s, snd s @ [Logged err ctx])"

text \<open>The commands that were run, in order.\<close>

fun commands :: "event list \<Rightarrow> string list" where
  "commands [] = []"
| "commands (Exec cmd cwd r # es) = cmd # commands es"
| "commands (Logged err ctx # es) = commands es"

section \<open>Responses\<close>

record SwitchResult =
  previousBranch :: string
  currentBranch :: string
  message :: string
  stashed :: bool
  stashConflict :: "bool option"

record WorktreeInfo =
  path :: string
  branch :: string
  isMain :: bool
  hasChanges :: "bool option"
  changedFilesCount :: "nat option"

record BranchInfo =
  name :: string
  isCurrent :: bool
  isRemote :: bool

text \<open>The JSON bodies: \<open>{success: false, error}\<close>, \<open>{success: true, result}\<close> of a switch,
  \<open>{success: true, worktrees}\<close> and \<open>{success: true, result: {currentBranch, branches}}\<close>.\<close>

datatype body =
    Failure string
  | Switched SwitchResult
  | Worktrees "WorktreeInfo list"
  | Branches string "BranchInfo list"

datatype response = Response (status: nat) (payload: body)

fun success :: "response \<Rightarrow> bool" where
  "success (Response st (Failure e)) = False"
| "success (Response st b) = True"

section \<open>POST /switch-branch\<close>

record switch_request =
  req_worktreePath :: "string option"
  req_branchName :: "string option"

definition cmd_current_branch :: string where
  "cmd_current_branch = ''git rev-parse --abbrev-ref HEAD''"

definition cmd_verify :: "string \<Rightarrow> string" where
  "cmd_verify branchName = ''git rev-parse --verify '' @ branchName"

definition cmd_status :: string where
  "cmd_status = ''git status --porcelain''"

definition cmd_stash_push :: string where
  "cmd_stash_push = ''git stash push -m '' @ [CHR 0x22] @ ''auto-stash before branch switch'' @ [CHR 0x22]"

definition cmd_checkout :: "string \<Rightarrow> string" where
  "cmd_checkout branchName = ''git checkout '' @ branchName"

definition cmd_stash_pop :: string where
  "cmd_stash_pop = ''git stash pop''"

definition quoted :: "string \<Rightarrow> string" where
  "quoted s = [CHR 0x27] @ s @ [CHR 0x27]"

text \<open>\<open>err.stderr || err.message || ""\<close>\<close>

definition errorMsg :: "exec_error \<Rightarrow> string" where
  "errorMsg err =
     (if truthy (err_stderr err) then str_of (err_stderr err)
      else if truthy (err_message err) then str_of (err_message err)
      else [])"

definition is_conflict :: "exec_error \<Rightarrow> bool" where
  "is_conflict err = (includes_str (errorMsg err) ''CONFLICT'' \<or> includes_str (errorMsg err) ''conflict'')"

text \<open>The body of the inner \<open>try\<close> (checkout, then the pop of the stash): \<open>Inl\<close> is a throw
  that reaches \<open>catch (checkoutError)\<close>, \<open>Inr\<close> the response that was sent.\<close>

definition checkout_try ::
  "'w shell \<Rightarrow> string \<Rightarrow> string \<Rightarrow> string \<Rightarrow> bool \<Rightarrow> 'w st \<Rightarrow> (exec_error + response) \<times> 'w st" where
  "checkout_try sh worktreePath branchName prevBranch stashedFlag s =
     (case execAsync sh (cmd_checkout branchName) worktreePath s of
        (Inl e, s1) \<Rightarrow> (Inl e, s1)
      | (Inr out, s1) \<Rightarrow>
          if stashedFlag then
            (case execAsync sh cmd_stash_pop worktreePath s1 of
               (Inl stashPopError, s2) \<Rightarrow>
                 if is_conflict stashPopError then
                   (Inr (Response 200 (Switched
                      \<lparr>previousBranch = prevBranch, currentBranch = branchName,
                       message = ''Switched to '' @ quoted branchName
                                 @ '' but stash had conflicts. Please resolve manually.'',
                       stashed = True, stashConflict = Some True\<rparr>)), s2)
                 else (Inl stashPopError, s2)
             | (Inr out2, s2) \<Rightarrow>
                 (Inr (Response 200 (Switched
                    \<lparr>previousBranch = prevBranch, currentBranch = branchName,
                     message = ''Switched to branch '' @ quoted branchName
                               @ '' (changes stashed and restored)'',
                     stashed = stashedFlag, stashConflict = None\<rparr>)), s2))
          else
            (Inr (Response 200 (Switched
               \<lparr>previousBranch = prevBranch, currentBranch = branchName,
                message = ''Switched to branch '' @ quoted branchName,
                stashed = stashedFlag, stashConflict = None\<rparr>)), s1))"

text \<open>The inner \<open>try\<close> with its \<open>catch (checkoutError)\<close>: when changes were stashed the stash
  is popped, an error of that pop is ignored, and the caught error is thrown again.\<close>

definition checkout_block ::
  "'w shell \<Rightarrow> string \<Rightarrow> string \<Rightarrow> string \<Rightarrow> bool \<Rightarrow> 'w st \<Rightarrow> (exec_error + response) \<times> 'w st" where
  "checkout_block sh worktreePath branchName prevBranch stashedFlag s =
     (case checkout_try sh worktreePath branchName prevBranch stashedFlag s of
        (Inr res, s1) \<Rightarrow> (Inr res, s1)
      | (Inl checkoutError, s1) \<Rightarrow>
          (Inl checkoutError,
           if stashedFlag then snd (execAsync sh cmd_stash_pop worktreePath s1) else s1))"

text \<open>\<open>let stashed = false; if (hasChanges) { await execAsync(stash push); stashed = true; }\<close>\<close>

definition stash_if_dirty :: "'w shell \<Rightarrow> string \<Rightarrow> bool \<Rightarrow> 'w st \<Rightarrow> (exec_error + bool) \<times> 'w st" where
  "stash_if_dirty sh worktreePath dirty s =
     (if dirty then
        (case execAsync sh cmd_stash_push worktreePath s of
           (Inl e, s1) \<Rightarrow> (Inl e, s1)
         | (Inr out, s1) \<Rightarrow> (Inr True, s1))
      else (Inr False, s))"

text \<open>The body of the outer \<open>try\<close>.\<close>

definition switch_try :: "'w shell \<Rightarrow> switch_request \<Rightarrow> 'w st \<Rightarrow> (exec_error + response) \<times> 'w st" where
  "switch_try sh req s0 =
     (if \<not> truthy (req_worktreePath req) then
        (Inr (Response 400 (Failure ''worktreePath required'')), s0)
      else if \<not> truthy (req_branchName req) then
        (Inr (Response 400 (Failure ''branchName required'')), s0)
      else
        (let worktreePath = str_of (req_worktreePath req);
             branchName = str_of (req_branchName req) in
         case execAsync sh cmd_current_branch worktreePath s0 of
           (Inl e, s1) \<Rightarrow> (Inl e, s1)
         | (Inr currentBranchOutput, s1) \<Rightarrow>
             (let prevBranch = trim currentBranchOutput in
              if prevBranch = branchName then
                (Inr (Response 200 (Switched
                   \<lparr>previousBranch = prevBranch, currentBranch = branchName,
                    message = ''Already on branch '' @ quoted branchName,
                    stashed = False, stashConflict = None\<rparr>)), s1)
              else
                (case execAsync sh (cmd_verify branchName) worktreePath s1 of
                   (Inl e, s2) \<Rightarrow>
                     (Inr (Response 400 (Failure
                        (''Branch '' @ quoted branchName @ '' does not exist''))), s2)
                 | (Inr out, s2) \<Rightarrow>
                     (case execAsync sh cmd_status worktreePath s2 of
                        (Inl e, s3) \<Rightarrow> (Inl e, s3)
                      | (Inr statusOutput, s3) \<Rightarrow>
                          (let dirty = (length (trim statusOutput) > 0) in
                           case stash_if_dirty sh worktreePath dirty s3 of
                             (Inl e, s4) \<Rightarrow> (Inl e, s4)
                           | (Inr stashedFlag, s4) \<Rightarrow>
                               checkout_block sh worktreePath branchName prevBranch
                                 stashedFlag s4))))))"

text \<open>
  The handler. \<open>getErrorMessage\<close> comes from \<open>../common.js\<close>, which is not among the
  sources at hand, and is a parameter.
\<close>

definition switchBranchHandler ::
  "(exec_error \<Rightarrow> string) \<Rightarrow> 'w shell \<Rightarrow> switch_request \<Rightarrow> 'w st \<Rightarrow> response \<times> 'w st" where
  "switchBranchHandler getErrorMessage sh req s0 =
     (case switch_try sh req s0 of
        (Inr res, s) \<Rightarrow> (res, s)
      | (Inl err, s) \<Rightarrow>
          (Response 500 (Failure (getErrorMessage err)), logError err ''Switch branch failed'' s))"

section \<open>POST /list\<close>

record list_request =
  req_projectPath :: "string option"
  req_includeDetails :: "bool option"

definition cmd_worktree_list :: string where
  "cmd_worktree_list = ''git worktree list --porcelain''"

text \<open>The accumulator \<open>current\<close> of the parsing loop.\<close>

record current =
  cur_path :: "string option"
  cur_branch :: "string option"

definition no_current :: current where
  "no_current = \<lparr>cur_path = None, cur_branch = None\<rparr>"

text \<open>The loop \<open>for (const line of lines)\<close> over the state \<open>worktrees\<close>, \<open>current\<close>,
  \<open>isFirst\<close>.\<close>

fun parse_lines :: "string list \<Rightarrow> WorktreeInfo list \<Rightarrow> current \<Rightarrow> bool \<Rightarrow> WorktreeInfo list" where
  "parse_lines [] worktrees cur isFirst = worktrees"
| "parse_lines (line # lines) worktrees cur isFirst =
     (if startsWith line ''worktree '' then
        parse_lines lines worktrees (cur\<lparr>cur_path := Some (slice line 9)\<rparr>) isFirst
      else if startsWith line ''branch '' then
        parse_lines lines worktrees
          (cur\<lparr>cur_branch := Some (replace (slice line 7) ''refs/heads/'' [])\<rparr>) isFirst
      else if line = [] then
        (if truthy (cur_path cur) \<and> truthy (cur_branch cur) then
           parse_lines lines
             (worktrees @ [\<lparr>path = str_of (cur_path cur), branch = str_of (cur_branch cur),
                            isMain = isFirst, hasChanges = None, changedFilesCount = None\<rparr>])
             no_current False
         else parse_lines lines worktrees no_current isFirst)
      else parse_lines lines worktrees cur isFirst)"

definition parse_worktrees :: "string \<Rightarrow> WorktreeInfo list" where
  "parse_worktrees stdout = parse_lines (split_nl stdout) [] no_current True"

text \<open>
  The same output read record by record, as the description of the parser has it: a record
  is the run of lines closed by a blank line (what follows the last blank line is never
  closed and is no record), its fields are the last path line and the last branch line in
  it, records without both are left out, and the first entry that remains is marked.
\<close>

fun record_blocks :: "string list \<Rightarrow> string list \<Rightarrow> string list list" where
  "record_blocks blk [] = []"
| "record_blocks blk (l # ls) =
     (if l = [] then blk # record_blocks [] ls else record_blocks (blk @ [l]) ls)"

fun block_fields :: "string list \<Rightarrow> current \<Rightarrow> current" where
  "block_fields [] cur = cur"
| "block_fields (l # ls) cur =
     (if startsWith l ''worktree '' then block_fields ls (cur\<lparr>cur_path := Some (slice l 9)\<rparr>)
      else if startsWith l ''branch '' then
        block_fields ls (cur\<lparr>cur_branch := Some (replace (slice l 7) ''refs/heads/'' [])\<rparr>)
      else block_fields ls cur)"

definition complete :: "current \<Rightarrow> bool" where
  "complete cur = (truthy (cur_path cur) \<and> truthy (cur_branch cur))"

definition entry_of :: "current \<Rightarrow> WorktreeInfo" where
  "entry_of cur = \<lparr>path = str_of (cur_path cur), branch = str_of (cur_branch cur),
                   isMain = False, hasChanges = None, changedFilesCount = None\<rparr>"

fun mark_first :: "WorktreeInfo list \<Rightarrow> WorktreeInfo list" where
  "mark_first [] = []"
| "mark_first (x # xs) = x\<lparr>isMain := True\<rparr> # xs"

definition spec_worktrees :: "string \<Rightarrow> WorktreeInfo list" where
  "spec_worktrees out =
     mark_first (map entry_of (filter complete
       (map (\<lambda>b. block_fields b no_current) (record_blocks [] (split_nl out)))))"

text \<open>The body of the loop over the worktrees in detail mode, given the outcome of the
  status query of that worktree: the \<open>try\<close> branch for an output, the \<open>catch\<close> branch for
  a failure.\<close>

definition enrich :: "WorktreeInfo \<Rightarrow> exec_result \<Rightarrow> WorktreeInfo" where
  "enrich worktree r =
     (case r of
        Inr statusOutput \<Rightarrow>
          (let changedFiles = filter (\<lambda>line. trim line \<noteq> []) (split_nl (trim statusOutput))
           in worktree\<lparr>hasChanges := Some (length changedFiles > 0),
                        changedFilesCount := Some (length changedFiles)\<rparr>)
      | Inl e \<Rightarrow> worktree\<lparr>hasChanges := Some False, changedFilesCount := Some 0\<rparr>)"

fun enrich_all :: "'w shell \<Rightarrow> WorktreeInfo list \<Rightarrow> 'w st \<Rightarrow> WorktreeInfo list \<times> 'w st" where
  "enrich_all sh [] s = ([], s)"
| "enrich_all sh (worktree # rest) s =
     (case execAsync sh cmd_status (path worktree) s of
        (r, s1) \<Rightarrow>
          (case enrich_all sh rest s1 of
             (rest', s2) \<Rightarrow> (enrich worktree r # rest', s2)))"

text \<open>
  \<open>isGitRepo\<close> comes from \<open>../common.js\<close> as well and is a parameter: it answers for a
  path, may fail, and may consult the outside world.
\<close>

type_synonym 'w repo_test = "string \<Rightarrow> 'w \<Rightarrow> (exec_error + bool) \<times> 'w"

definition list_try ::
  "'w repo_test \<Rightarrow> 'w shell \<Rightarrow> list_request \<Rightarrow> 'w st \<Rightarrow> (exec_error + response) \<times> 'w st" where
  "list_try isGitRepo sh req s0 =
     (if \<not> truthy (req_projectPath req) then
        (Inr (Response 400 (Failure ''projectPath required'')), s0)
      else
        (let projectPath = str_of (req_projectPath req) in
         case isGitRepo projectPath (fst s0) of
           (Inl e, w1) \<Rightarrow> (Inl e, (w1, snd s0))
         | (Inr False, w1) \<Rightarrow> (Inr (Response 200 (Worktrees [])), (w1, snd s0))
         | (Inr True, w1) \<Rightarrow>
             (case execAsync sh cmd_worktree_list projectPath (w1, snd s0) of
                (Inl e, s1) \<Rightarrow> (Inl e, s1)
              | (Inr stdout, s1) \<Rightarrow>
                  (let worktrees = parse_worktrees stdout in
                   if truthy_flag (req_includeDetails req) then
                     (case enrich_all sh worktrees s1 of
                        (detailed, s2) \<Rightarrow> (Inr (Response 200 (Worktrees detailed)), s2))
                   else (Inr (Response 200 (Worktrees worktrees)), s1)))))"

definition listHandler ::
  "(exec_error \<Rightarrow> string) \<Rightarrow> 'w repo_test \<Rightarrow> 'w shell \<Rightarrow> list_request \<Rightarrow> 'w st
     \<Rightarrow> response \<times> 'w st" where
  "listHandler getErrorMessage isGitRepo sh req s0 =
     (case list_try isGitRepo sh req s0 of
        (Inr res, s) \<Rightarrow> (res, s)
      | (Inl err, s) \<Rightarrow>
          (Response 500 (Failure (getErrorMessage err)), logError err ''List worktrees failed'' s))"

text \<open>The outcomes of the status queries of detail mode, read back from the trace: the
  events after the first one, which is the enumeration.\<close>

definition status_results :: "event list \<Rightarrow> exec_result list" where
  "status_results tr = map ev_result (tl tr)"

section \<open>POST /list-branches\<close>

definition cmd_branch_list :: string where
  "cmd_branch_list = ''git branch --format='' @ quoted ''%(refname:short)''"

text \<open>\<open>branchesOutput.trim().split("\n").filter((b) => b.trim()).map(...)\<close>\<close>

definition branch_infos :: "string \<Rightarrow> string \<Rightarrow> BranchInfo list" where
  "branch_infos currentBranchName branchesOutput =
     map (\<lambda>nm. \<lparr>name = trim nm, isCurrent = (trim nm = currentBranchName), isRemote = False\<rparr>)
       (filter (\<lambda>b. trim b \<noteq> []) (split_nl (trim branchesOutput)))"

definition list_branches_try ::
  "'w shell \<Rightarrow> string option \<Rightarrow> 'w st \<Rightarrow> (exec_error + response) \<times> 'w st" where
  "list_branches_try sh worktreePath s0 =
     (if \<not> truthy worktreePath then
        (Inr (Response 400 (Failure ''worktreePath required'')), s0)
      else
        (case execAsync sh cmd_current_branch (str_of worktreePath) s0 of
           (Inl e, s1) \<Rightarrow> (Inl e, s1)
         | (Inr currentBranchOutput, s1) \<Rightarrow>
             (let currentBranchName = trim currentBranchOutput in
              case execAsync sh cmd_branch_list (str_of worktreePath) s1 of
                (Inl e, s2) \<Rightarrow> (Inl e, s2)
              | (Inr branchesOutput, s2) \<Rightarrow>
                  (Inr (Response 200 (Branches currentBranchName
                     (branch_infos currentBranchName branchesOutput))), s2))))"

definition listBranchesHandler ::
  "(exec_error \<Rightarrow> string) \<Rightarrow> 'w shell \<Rightarrow> string option \<Rightarrow> 'w st \<Rightarrow> response \<times> 'w st" where
  "listBranchesHandler getErrorMessage sh worktreePath s0 =
     (case list_branches_try sh worktreePath s0 of
        (Inr res, s) \<Rightarrow> (res, s)
      | (Inl err, s) \<Rightarrow>
          (Response 500 (Failure (getErrorMessage err)), logError err ''List branches failed'' s))"

section \<open>A replaying shell and sample data for concrete runs\<close>

text \<open>The world is the list of outcomes still to be handed out, one per call; once it is
  used up every command succeeds with empty output.\<close>

definition scripted :: "exec_result list shell" where
  "scripted cmd cwd w = (case w of [] \<Rightarrow> (Inr [], []) | r # rs \<Rightarrow> (r, rs))"

definition always_repo :: "exec_result list repo_test" where
  "always_repo p w = (Inr True, w)"

definition text_lines :: "string list \<Rightarrow> string" where
  "text_lines ls = concat (map (\<lambda>l. l @ [CHR 0x0A]) ls)"

definition stateless :: "(string \<Rightarrow> exec_result) \<Rightarrow> unit shell" where
  "stateless f cmd cwd w = (f cmd, w)"

definition message_text :: "exec_error \<Rightarrow> string" where
  "message_text err = str_of (err_message err)"

definition conflict_error :: exec_error where
  "conflict_error =
     \<lparr>err_stderr = Some ''CONFLICT (content): Merge conflict in a.txt'',
      err_message = Some ''Command failed: git stash pop''\<rparr>"

definition other_error :: exec_error where
  "other_error =
     \<lparr>err_stderr = Some ''error: could not write index'',
      err_message = Some ''Command failed: git stash pop''\<rparr>"

definition checkout_error :: exec_error where
  "checkout_error =
     \<lparr>err_stderr = Some ''fatal: dev is already checked out at /other'',
      err_message = Some ''Command failed: git checkout dev''\<rparr>"

definition sample_request :: switch_request where
  "sample_request = \<lparr>req_worktreePath = Some ''/repo'', req_branchName = Some ''dev''\<rparr>"

definition sample_worktrees :: string where
  "sample_worktrees =
     text_lines [''worktree /repo'', ''HEAD 3f2a'', ''branch refs/heads/main'', [],
                 ''worktree /repo/wt-a'', ''HEAD 77c1'', ''detached'', [],
                 ''worktree /repo/wt-b'', ''HEAD 9d0e'', ''branch refs/heads/feature'', []]"

definition sample_list_request :: list_request where
  "sample_list_request = \<lparr>req_projectPath = Some ''/repo'', req_includeDetails = Some True\<rparr>"

section \<open>Basic facts\<close>

lemma truthy_Some [simp]: "truthy (Some s) = (s \<noteq> [])"
  by (simp add: truthy_def)

lemma truthy_None [simp]: "truthy None = False"
  by (simp add: truthy_def)

lemma str_of_Some [simp]: "str_of (Some s) = s"
  by (simp add: str_of_def)


lemma commands_append: "commands (xs @ ys) = commands xs @ commands ys"
  by (induction xs rule: commands.induct) simp_all

section \<open>The paths through the branch switch\<close>

text \<open>A supplied request whose three queries succeed, on another branch than the target,
  arrives at the stash step with the three queries in the trace.\<close>

lemma switch_try_to_status:
  assumes "req = \<lparr>req_worktreePath = Some wp, req_branchName = Some bn\<rparr>" "wp \<noteq> []" "bn \<noteq> []"
      and "sh cmd_current_branch wp w0 = (Inr o1, w1)" "trim o1 \<noteq> bn"
      and "sh (cmd_verify bn) wp w1 = (Inr o2, w2)"
      and "sh cmd_status wp w2 = (Inr o3, w3)"
  shows "switch_try sh req (w0, []) =
           (case stash_if_dirty sh wp (trim o3 \<noteq> [])
                   (w3, [Exec cmd_current_branch wp (Inr o1), Exec (cmd_verify bn) wp (Inr o2),
                         Exec cmd_status wp (Inr o3)]) of
              (Inl e, s4) \<Rightarrow> (Inl e, s4)
            | (Inr stashedFlag, s4) \<Rightarrow> checkout_block sh wp bn (trim o1) stashedFlag s4)"
  using assms by (simp add: switch_try_def execAsync_def Let_def)

text \<open>With a dirty worktree and a successful stash it arrives at the checkout with
  \<open>stashed = true\<close>.\<close>

lemma switch_try_dirty_stashed:
  assumes "req = \<lparr>req_worktreePath = Some wp, req_branchName = Some bn\<rparr>" "wp \<noteq> []" "bn \<noteq> []"
      and "sh cmd_current_branch wp w0 = (Inr o1, w1)" "trim o1 \<noteq> bn"
      and "sh (cmd_verify bn) wp w1 = (Inr o2, w2)"
      and "sh cmd_status wp w2 = (Inr o3, w3)" "trim o3 \<noteq> []"
      and "sh cmd_stash_push wp w3 = (Inr o4, w4)"
  shows "switch_try sh req (w0, []) =
           checkout_block sh wp bn (trim o1) True
             (w4, [Exec cmd_current_branch wp (Inr o1), Exec (cmd_verify bn) wp (Inr o2),
                   Exec cmd_status wp (Inr o3), Exec cmd_stash_push wp (Inr o4)])"
proof -
  have "switch_try sh req (w0, []) =
           (case stash_if_dirty sh wp (trim o3 \<noteq> [])
                   (w3, [Exec cmd_current_branch wp (Inr o1), Exec (cmd_verify bn) wp (Inr o2),
                         Exec cmd_status wp (Inr o3)]) of
              (Inl e, s4) \<Rightarrow> (Inl e, s4)
            | (Inr stashedFlag, s4) \<Rightarrow> checkout_block sh wp bn (trim o1) stashedFlag s4)"
    using assms(1-7) by (rule switch_try_to_status)
  then show ?thesis
    using assms(8,9) by (simp add: stash_if_dirty_def execAsync_def)
qed


section \<open>Facts about the worktree parser and the detail loop\<close>

lemma parse_lines_acc:
  "parse_lines ls wts cur f = wts @ parse_lines ls [] cur f"
proof (induction ls arbitrary: wts cur f)
  case Nil
  show ?case by simp
next
  case (Cons l ls)
  show ?case
    using Cons.IH [of "wts @ [x]" for x] Cons.IH [of wts] Cons.IH [of "[x]" for x]
    by (simp del: append_assoc add: append_assoc [symmetric])
qed

lemma parse_lines_not_first:
  "wt \<in> set (parse_lines ls [] cur False) \<Longrightarrow> \<not> isMain wt"
proof (induction ls arbitrary: cur)
  case Nil
  then show ?case by simp
next
  case (Cons l ls)
  show ?case
    using Cons.prems Cons.IH parse_lines_acc [of ls "[x]" no_current False for x]
    by (auto split: if_splits)
qed

lemma parse_lines_first:
  "parse_lines ls [] cur True = [] \<or>
   (\<exists>wt rest. parse_lines ls [] cur True = wt # rest \<and> isMain wt \<and> (\<forall>x\<in>set rest. \<not> isMain x))"
proof (induction ls arbitrary: cur)
  case Nil
  show ?case by simp
next
  case (Cons l ls)
  show ?case
    using Cons.IH parse_lines_acc [of ls "[x]" no_current False for x]
      parse_lines_not_first [of _ ls no_current]
    by (auto split: if_splits)
qed

lemma record_blocks_shift:
  "record_blocks (blk @ blk') ls =
     (case record_blocks blk' ls of [] \<Rightarrow> [] | b # bs \<Rightarrow> (blk @ b) # bs)"
proof (induction ls arbitrary: blk')
  case Nil
  show ?case by simp
next
  case (Cons l ls)
  show ?case
    using Cons.IH [of "[]"] Cons.IH [of "blk' @ [l]"] by simp
qed

lemma record_blocks_Cons:
  "record_blocks [l] ls =
      (case record_blocks [] ls of [] \<Rightarrow> [] | b # bs \<Rightarrow> (l # b) # bs)"
  using record_blocks_shift [of "[l]" "[]" ls] by (simp split: list.splits)

text \<open>The loop, started in the middle of a record with the fields read so far, gives the
  entries of the records that follow.\<close>

lemma parse_lines_records:
  "parse_lines ls [] cur f =
     (if f then mark_first else id)
       (map entry_of (filter complete
         (case record_blocks [] ls of [] \<Rightarrow> []
          | b # bs \<Rightarrow> block_fields b cur # map (\<lambda>b. block_fields b no_current) bs)))"
proof (induction ls arbitrary: cur f)
  case Nil
  show ?case by simp
next
  case (Cons l ls)
  note IH = Cons.IH
  show ?case
  proof (cases "l = []")
    case True
    then show ?thesis
      using IH [of no_current] parse_lines_acc [of ls "[x]" no_current False for x]
      by (auto simp add: startsWith_def complete_def entry_of_def no_current_def
            split: list.splits)
  next
    case False
    let ?c = "if startsWith l ''worktree '' then cur\<lparr>cur_path := Some (slice l 9)\<rparr>
              else if startsWith l ''branch '' then
                cur\<lparr>cur_branch := Some (replace (slice l 7) ''refs/heads/'' [])\<rparr>
              else cur"
    have step: "parse_lines (l # ls) [] cur f = parse_lines ls [] ?c f"
      using False by simp
    have fields: "block_fields (l # b) cur = block_fields b ?c" for b
      by simp
    have rb: "record_blocks [] (l # ls) =
            (case record_blocks [] ls of [] \<Rightarrow> [] | b # bs \<Rightarrow> (l # b) # bs)"
      using False by (simp add: record_blocks_Cons)
    show ?thesis
    proof (cases "record_blocks [] ls")
      case Nil
      then show ?thesis
        using rb by (simp only: step IH [of ?c f] list.case)
    next
      case (Cons b bs)
      then show ?thesis
        using rb by (simp only: step IH [of ?c f] list.case fields)
    qed
  qed
qed

lemma filter_none: "(\<forall>x\<in>set xs. \<not> P x) \<Longrightarrow> filter P xs = []"
  by (induction xs) auto

lemma enrich_all_results:
  "\<exists>rs. length rs = length wts
      \<and> fst (enrich_all sh wts (w, tr)) = map2 enrich wts rs
      \<and> snd (snd (enrich_all sh wts (w, tr))) = tr @ map2 (\<lambda>wt r. Exec cmd_status (path wt) r) wts rs"
proof (induction wts arbitrary: w tr)
  case Nil
  show ?case by simp
next
  case (Cons wt wts)
  obtain r w1 where ex: "sh cmd_status (path wt) w = (r, w1)"
    by (cases "sh cmd_status (path wt) w")
  obtain rs where rs: "length rs = length wts"
      "fst (enrich_all sh wts (w1, tr @ [Exec cmd_status (path wt) r])) = map2 enrich wts rs"
      "snd (snd (enrich_all sh wts (w1, tr @ [Exec cmd_status (path wt) r]))) =
         (tr @ [Exec cmd_status (path wt) r]) @ map2 (\<lambda>wt r. Exec cmd_status (path wt) r) wts rs"
    using Cons.IH [of w1 "tr @ [Exec cmd_status (path wt) r]"] by blast
  show ?case
    using ex rs
    by (intro exI [of _ "r # rs"]) (simp add: execAsync_def case_prod_beta)
qed

lemma enrich_failed:
  "enrich wt (Inl e) = wt\<lparr>hasChanges := Some False, changedFilesCount := Some 0\<rparr>"
  by (simp add: enrich_def)

lemma enrich_iff:
  "\<exists>n. changedFilesCount (enrich wt r) = Some n \<and> hasChanges (enrich wt r) = Some (0 < n)"
  by (cases r) (simp_all add: enrich_def Let_def)

lemma enrich_all_iff:
  "x \<in> set (fst (enrich_all sh wts s)) \<Longrightarrow>
     \<exists>n. changedFilesCount x = Some n \<and> hasChanges x = Some (0 < n)"
proof (induction wts arbitrary: s)
  case Nil
  then show ?case by simp
next
  case (Cons wt wts)
  then show ?case
    using enrich_iff [of wt] by (auto simp add: case_prod_beta execAsync_def)
qed

lemma status_results_map2:
  "length rs = length wts \<Longrightarrow>
     status_results (e # map2 (\<lambda>wt r. Exec c (path wt) r) wts rs) = rs"
proof (induction wts arbitrary: rs e)
  case Nil
  then show ?case by (simp add: status_results_def)
next
  case (Cons wt wts)
  then obtain r rs' where "rs = r # rs'" by (cases rs) auto
  then show ?case
    using Cons.IH [of rs' e] Cons.prems by (simp add: status_results_def)
qed

lemma parse_sample_worktrees:
  "parse_worktrees sample_worktrees =
     [\<lparr>path = ''/repo'', branch = ''main'', isMain = True, hasChanges = None,
       changedFilesCount = None\<rparr>,
      \<lparr>path = ''/repo/wt-b'', branch = ''feature'', isMain = False, hasChanges = None,
       changedFilesCount = None\<rparr>]"
  by (simp add: parse_worktrees_def sample_worktrees_def text_lines_def startsWith_def
        slice_def no_current_def)

section \<open>Facts about the branch listing\<close>

lemma branch_infos_current:
  "b \<in> set (branch_infos cur out) \<Longrightarrow> isCurrent b = (name b = cur)"
  by (auto simp add: branch_infos_def)

lemma count_current:
  "(\<forall>b\<in>set bs. isCurrent b = (name b = cur)) \<Longrightarrow>
     length (filter isCurrent bs) = count_list (map name bs) cur"
  by (induction bs) auto

lemma distinct_count_le: "distinct xs \<Longrightarrow> count_list xs x \<le> 1"
  by (induction xs) auto

section \<open>Claims about the branch switch\<close>



text \<open>
  C5. A request without a worktree path or without a branch name is answered with status
  400 before any command is run: the trace stays empty and the world is untouched. A
  supplied request whose existence check \<open>git rev-parse --verify\<close> fails is answered with
  status 400 and \<open>Branch '...' does not exist\<close>; the only commands run are the two
  \<open>rev-parse\<close> queries, none of them the stash push, the checkout or the stash pop, and
  when these two queries leave the world as it is, the world after the request is the
  world before it.
\<close>

theorem switch_validation_before_mutation:
  "(\<not> truthy (req_worktreePath req) \<or> \<not> truthy (req_branchName req) \<longrightarrow>
      (\<exists>msg. switchBranchHandler gem sh req (w, []) = (Response 400 (Failure msg), (w, []))))
   \<and> (req = \<lparr>req_worktreePath = Some wp, req_branchName = Some bn\<rparr> \<and> wp \<noteq> [] \<and> bn \<noteq> []
        \<and> sh cmd_current_branch wp w = (Inr oa, wa) \<and> trim oa \<noteq> bn
        \<and> sh (cmd_verify bn) wp wa = (Inl e, wb) \<longrightarrow>
      switchBranchHandler gem sh req (w, []) =
        (Response 400 (Failure (''Branch '' @ quoted bn @ '' does not exist'')),
         (wb, [Exec cmd_current_branch wp (Inr oa), Exec (cmd_verify bn) wp (Inl e)]))
      \<and> cmd_stash_push \<notin> {cmd_current_branch, cmd_verify bn}
      \<and> cmd_checkout bn \<notin> {cmd_current_branch, cmd_verify bn}
      \<and> cmd_stash_pop \<notin> {cmd_current_branch, cmd_verify bn}
      \<and> ((\<forall>v. snd (sh cmd_current_branch wp v) = v) \<and> (\<forall>v. snd (sh (cmd_verify bn) wp v) = v)
           \<longrightarrow> wb = w))"
proof -
  have "wb = w"
    if "sh cmd_current_branch wp w = (Inr oa, wa)" "sh (cmd_verify bn) wp wa = (Inl e, wb)"
      "\<forall>v. snd (sh cmd_current_branch wp v) = v" "\<forall>v. snd (sh (cmd_verify bn) wp v) = v"
    using that by (metis snd_conv)
  then show ?thesis
    by (auto simp add: switchBranchHandler_def switch_try_def execAsync_def Let_def
        cmd_stash_pop_def cmd_current_branch_def cmd_verify_def cmd_stash_push_def
        cmd_checkout_def)
qed

theorem switch_validation_before_mutation_witness:
  "switchBranchHandler message_text (stateless (\<lambda>c. Inr []))
     \<lparr>req_worktreePath = None, req_branchName = Some ''dev''\<rparr> ((), []) =
     (Response 400 (Failure ''worktreePath required''), ((), []))
   \<and> switchBranchHandler message_text (stateless (\<lambda>c. Inr []))
     \<lparr>req_worktreePath = Some ''/repo'', req_branchName = Some []\<rparr> ((), []) =
     (Response 400 (Failure ''branchName required''), ((), []))
   \<and> switchBranchHandler message_text
       (stateless (\<lambda>c. if c = cmd_current_branch then Inr (text_lines [''main''])
                        else Inl other_error))
       sample_request ((), []) =
     (Response 400 (Failure (''Branch '' @ quoted ''dev'' @ '' does not exist'')),
      ((), [Exec cmd_current_branch ''/repo'' (Inr (text_lines [''main''])),
            Exec (cmd_verify ''dev'') ''/repo'' (Inl other_error)]))"
proof -
  let ?sh = "stateless (\<lambda>c. if c = cmd_current_branch then Inr (text_lines [''main''])
                        else Inl other_error)"
  have t: "trim (text_lines [''main'']) = ''main''"
    by (simp add: text_lines_def trim_def is_ws_def)
  have ne: "cmd_verify ''dev'' \<noteq> cmd_current_branch"
    by (simp add: cmd_verify_def cmd_current_branch_def)
  obtain m1 where a: "switchBranchHandler message_text (stateless (\<lambda>c. Inr []))
     \<lparr>req_worktreePath = None, req_branchName = Some ''dev''\<rparr> ((), []) =
     (Response 400 (Failure m1), ((), []))"
    using switch_validation_before_mutation [where sh = "stateless (\<lambda>c. Inr [])"
        and req = "\<lparr>req_worktreePath = None, req_branchName = Some ''dev''\<rparr>"
        and w = "()" and gem = message_text, THEN conjunct1]
    by auto
  obtain m2 where b: "switchBranchHandler message_text (stateless (\<lambda>c. Inr []))
     \<lparr>req_worktreePath = Some ''/repo'', req_branchName = Some []\<rparr> ((), []) =
     (Response 400 (Failure m2), ((), []))"
    using switch_validation_before_mutation [where sh = "stateless (\<lambda>c. Inr [])"
        and req = "\<lparr>req_worktreePath = Some ''/repo'', req_branchName = Some []\<rparr>"
        and w = "()" and gem = message_text, THEN conjunct1]
    by auto
  have c: "switchBranchHandler message_text ?sh sample_request ((), []) =
     (Response 400 (Failure (''Branch '' @ quoted ''dev'' @ '' does not exist'')),
      ((), [Exec cmd_current_branch ''/repo'' (Inr (text_lines [''main''])),
            Exec (cmd_verify ''dev'') ''/repo'' (Inl other_error)]))"
    using t ne switch_validation_before_mutation [where sh = ?sh and req = sample_request
        and wp = "''/repo''" and bn = "''dev''" and w = "()" and wa = "()" and wb = "()"
        and oa = "text_lines [''main'']" and e = other_error and gem = message_text]
    by (simp add: stateless_def sample_request_def)
  have "m1 = ''worktreePath required''" "m2 = ''branchName required''"
    using a b by (simp_all add: switchBranchHandler_def switch_try_def)
  then show ?thesis using a b c by simp
qed

text \<open>
  C1. The worktree was dirty, the stash and the checkout succeeded, and the pop of the
  stash failed with the error \<open>e\<close>. When the text \<open>e.stderr || e.message || ""\<close> contains
  \<open>CONFLICT\<close> or \<open>conflict\<close>, the response is a success with \<open>stashed = true\<close>,
  \<open>stashConflict = true\<close> and the target as current branch; otherwise the response is a
  failure (status 500).
\<close>

theorem switch_pop_conflict_is_success:
  assumes "req = \<lparr>req_worktreePath = Some wp, req_branchName = Some bn\<rparr>" "wp \<noteq> []" "bn \<noteq> []"
      and "sh cmd_current_branch wp w = (Inr oa, wa)" "trim oa \<noteq> bn"
      and "sh (cmd_verify bn) wp wa = (Inr ob, wb)"
      and "sh cmd_status wp wb = (Inr oc, wc)" "trim oc \<noteq> []"
      and "sh cmd_stash_push wp wc = (Inr od, wd)"
      and "sh (cmd_checkout bn) wp wd = (Inr oe, we)"
      and "sh cmd_stash_pop wp we = (Inl e, wq)"
  shows "(is_conflict e \<longrightarrow>
            fst (switchBranchHandler gem sh req (w, [])) =
              Response 200 (Switched \<lparr>previousBranch = trim oa, currentBranch = bn,
                message = ''Switched to '' @ quoted bn
                          @ '' but stash had conflicts. Please resolve manually.'',
                stashed = True, stashConflict = Some True\<rparr>)
            \<and> success (fst (switchBranchHandler gem sh req (w, []))))
       \<and> (\<not> is_conflict e \<longrightarrow>
            fst (switchBranchHandler gem sh req (w, [])) = Response 500 (Failure (gem e))
            \<and> \<not> success (fst (switchBranchHandler gem sh req (w, []))))"
proof -
  have "switch_try sh req (w, []) =
           checkout_block sh wp bn (trim oa) True
             (wd, [Exec cmd_current_branch wp (Inr oa), Exec (cmd_verify bn) wp (Inr ob),
                   Exec cmd_status wp (Inr oc), Exec cmd_stash_push wp (Inr od)])"
    using assms(1-9) by (rule switch_try_dirty_stashed)
  then show ?thesis
    using assms(10-)
    by (simp add: switchBranchHandler_def checkout_block_def checkout_try_def execAsync_def
          split: prod.splits)
qed

theorem switch_pop_conflict_is_success_witness:
  "fst (switchBranchHandler message_text scripted sample_request
          ([Inr (text_lines [''main'']), Inr ''3f2a'', Inr (text_lines ['' M a.txt'']), Inr [],
            Inr [], Inl conflict_error], [])) =
     Response 200 (Switched \<lparr>previousBranch = ''main'', currentBranch = ''dev'',
       message = ''Switched to '' @ quoted ''dev''
                 @ '' but stash had conflicts. Please resolve manually.'',
       stashed = True, stashConflict = Some True\<rparr>)
   \<and> fst (switchBranchHandler message_text scripted sample_request
          ([Inr (text_lines [''main'']), Inr ''3f2a'', Inr (text_lines ['' M a.txt'']), Inr [],
            Inr [], Inl other_error], [])) =
     Response 500 (Failure ''Command failed: git stash pop'')"
proof -
  have t: "trim (text_lines [''main'']) = ''main''" "trim (text_lines ['' M a.txt'']) \<noteq> []"
    by (simp_all add: text_lines_def trim_def is_ws_def)
  have c: "is_conflict conflict_error" "\<not> is_conflict other_error"
    by (simp_all add: is_conflict_def errorMsg_def conflict_error_def other_error_def)
  have m: "message_text other_error = ''Command failed: git stash pop''"
    by (simp add: message_text_def other_error_def)
  show ?thesis
    using t c m
      switch_pop_conflict_is_success [where sh = scripted and req = sample_request
        and wp = "''/repo''" and bn = "''dev''" and gem = message_text
        and w = "[Inr (text_lines [''main'']), Inr ''3f2a'', Inr (text_lines ['' M a.txt'']),
                  Inr [], Inr [], Inl conflict_error]"
        and oa = "text_lines [''main'']"
        and wa = "[Inr ''3f2a'', Inr (text_lines ['' M a.txt'']), Inr [], Inr [],
                   Inl conflict_error]"
        and ob = "''3f2a''"
        and wb = "[Inr (text_lines ['' M a.txt'']), Inr [], Inr [], Inl conflict_error]"
        and oc = "text_lines ['' M a.txt'']"
        and wc = "[Inr [], Inr [], Inl conflict_error]" and od = "[]"
        and wd = "[Inr [], Inl conflict_error]" and oe = "[]"
        and we = "[Inl conflict_error]" and e = conflict_error and wq = "[]"]
      switch_pop_conflict_is_success [where sh = scripted and req = sample_request
        and wp = "''/repo''" and bn = "''dev''" and gem = message_text
        and w = "[Inr (text_lines [''main'']), Inr ''3f2a'', Inr (text_lines ['' M a.txt'']),
                  Inr [], Inr [], Inl other_error]"
        and oa = "text_lines [''main'']"
        and wa = "[Inr ''3f2a'', Inr (text_lines ['' M a.txt'']), Inr [], Inr [],
                   Inl other_error]"
        and ob = "''3f2a''"
        and wb = "[Inr (text_lines ['' M a.txt'']), Inr [], Inr [], Inl other_error]"
        and oc = "text_lines ['' M a.txt'']"
        and wc = "[Inr [], Inr [], Inl other_error]" and od = "[]"
        and wd = "[Inr [], Inl other_error]" and oe = "[]"
        and we = "[Inl other_error]" and e = other_error and wq = "[]"]
    by (simp add: scripted_def sample_request_def)
qed

text \<open>
  C2. The worktree was dirty, the stash succeeded and the checkout failed with the error
  \<open>e\<close>. Then \<open>git stash pop\<close> is run once, right after the failed checkout and before the
  failure is logged and answered; whatever that pop returns (\<open>r\<close> is arbitrary), the
  response is status 500 with the message of the checkout error \<open>e\<close>.
\<close>

theorem switch_checkout_failure_recovers:
  assumes "req = \<lparr>req_worktreePath = Some wp, req_branchName = Some bn\<rparr>" "wp \<noteq> []" "bn \<noteq> []"
      and "sh cmd_current_branch wp w = (Inr oa, wa)" "trim oa \<noteq> bn"
      and "sh (cmd_verify bn) wp wa = (Inr ob, wb)"
      and "sh cmd_status wp wb = (Inr oc, wc)" "trim oc \<noteq> []"
      and "sh cmd_stash_push wp wc = (Inr od, wd)"
      and "sh (cmd_checkout bn) wp wd = (Inl e, we)"
      and "sh cmd_stash_pop wp we = (r, wq)"
  shows "switchBranchHandler gem sh req (w, []) =
           (Response 500 (Failure (gem e)),
            (wq, [Exec cmd_current_branch wp (Inr oa), Exec (cmd_verify bn) wp (Inr ob),
                  Exec cmd_status wp (Inr oc), Exec cmd_stash_push wp (Inr od),
                  Exec (cmd_checkout bn) wp (Inl e), Exec cmd_stash_pop wp r,
                  Logged e ''Switch branch failed'']))"
proof -
  have "switch_try sh req (w, []) =
           checkout_block sh wp bn (trim oa) True
             (wd, [Exec cmd_current_branch wp (Inr oa), Exec (cmd_verify bn) wp (Inr ob),
                   Exec cmd_status wp (Inr oc), Exec cmd_stash_push wp (Inr od)])"
    using assms(1-9) by (rule switch_try_dirty_stashed)
  then show ?thesis
    using assms(10-)
    by (simp add: switchBranchHandler_def checkout_block_def checkout_try_def execAsync_def
          logError_def)
qed

theorem switch_checkout_failure_recovers_witness:
  "switchBranchHandler message_text scripted sample_request
     ([Inr (text_lines [''main'']), Inr ''3f2a'', Inr (text_lines ['' M a.txt'']), Inr [],
       Inl checkout_error, Inl other_error], []) =
     (Response 500 (Failure ''Command failed: git checkout dev''),
      ([], [Exec cmd_current_branch ''/repo'' (Inr (text_lines [''main''])),
            Exec (cmd_verify ''dev'') ''/repo'' (Inr ''3f2a''),
            Exec cmd_status ''/repo'' (Inr (text_lines ['' M a.txt''])),
            Exec cmd_stash_push ''/repo'' (Inr []),
            Exec (cmd_checkout ''dev'') ''/repo'' (Inl checkout_error),
            Exec cmd_stash_pop ''/repo'' (Inl other_error),
            Logged checkout_error ''Switch branch failed'']))"
proof -
  have t: "trim (text_lines [''main'']) = ''main''" "trim (text_lines ['' M a.txt'']) \<noteq> []"
    by (simp_all add: text_lines_def trim_def is_ws_def)
  have m: "message_text checkout_error = ''Command failed: git checkout dev''"
    by (simp add: message_text_def checkout_error_def)
  show ?thesis
    using t m
      switch_checkout_failure_recovers [where sh = scripted and req = sample_request
        and wp = "''/repo''" and bn = "''dev''" and gem = message_text
        and w = "[Inr (text_lines [''main'']), Inr ''3f2a'', Inr (text_lines ['' M a.txt'']),
                  Inr [], Inl checkout_error, Inl other_error]"
        and oa = "text_lines [''main'']"
        and wa = "[Inr ''3f2a'', Inr (text_lines ['' M a.txt'']), Inr [], Inl checkout_error,
                   Inl other_error]"
        and ob = "''3f2a''"
        and wb = "[Inr (text_lines ['' M a.txt'']), Inr [], Inl checkout_error, Inl other_error]"
        and oc = "text_lines ['' M a.txt'']"
        and wc = "[Inr [], Inl checkout_error, Inl other_error]" and od = "[]"
        and wd = "[Inl checkout_error, Inl other_error]" and e = checkout_error
        and we = "[Inl other_error]" and r = "Inl other_error" and wq = "[]"]
    by (simp add: scripted_def sample_request_def)
qed

text \<open>
  C9. The worktree was dirty, the stash and the checkout succeeded, and the pop of the
  stash failed with an error \<open>e\<close> that is not a conflict. The error thrown again is caught
  by \<open>catch (checkoutError)\<close>: \<open>git stash pop\<close> is run a second time, its outcome \<open>r\<close> is
  ignored, and the response is status 500 with the message of the first pop error.
\<close>

theorem switch_pop_failure_second_pop:
  assumes "req = \<lparr>req_worktreePath = Some wp, req_branchName = Some bn\<rparr>" "wp \<noteq> []" "bn \<noteq> []"
      and "sh cmd_current_branch wp w = (Inr oa, wa)" "trim oa \<noteq> bn"
      and "sh (cmd_verify bn) wp wa = (Inr ob, wb)"
      and "sh cmd_status wp wb = (Inr oc, wc)" "trim oc \<noteq> []"
      and "sh cmd_stash_push wp wc = (Inr od, wd)"
      and "sh (cmd_checkout bn) wp wd = (Inr oe, we)"
      and "sh cmd_stash_pop wp we = (Inl e, wq)" "\<not> is_conflict e"
      and "sh cmd_stash_pop wp wq = (r, wr)"
  shows "switchBranchHandler gem sh req (w, []) =
           (Response 500 (Failure (gem e)),
            (wr, [Exec cmd_current_branch wp (Inr oa), Exec (cmd_verify bn) wp (Inr ob),
                  Exec cmd_status wp (Inr oc), Exec cmd_stash_push wp (Inr od),
                  Exec (cmd_checkout bn) wp (Inr oe), Exec cmd_stash_pop wp (Inl e),
                  Exec cmd_stash_pop wp r,
                  Logged e ''Switch branch failed'']))"
proof -
  have "switch_try sh req (w, []) =
           checkout_block sh wp bn (trim oa) True
             (wd, [Exec cmd_current_branch wp (Inr oa), Exec (cmd_verify bn) wp (Inr ob),
                   Exec cmd_status wp (Inr oc), Exec cmd_stash_push wp (Inr od)])"
    using assms(1-9) by (rule switch_try_dirty_stashed)
  then show ?thesis
    using assms(10-)
    by (simp add: switchBranchHandler_def checkout_block_def checkout_try_def execAsync_def
          logError_def)
qed

theorem switch_pop_failure_second_pop_witness:
  "switchBranchHandler message_text scripted sample_request
     ([Inr (text_lines [''main'']), Inr ''3f2a'', Inr (text_lines ['' M a.txt'']), Inr [],
       Inr [], Inl other_error, Inl checkout_error], []) =
     (Response 500 (Failure ''Command failed: git stash pop''),
      ([], [Exec cmd_current_branch ''/repo'' (Inr (text_lines [''main''])),
            Exec (cmd_verify ''dev'') ''/repo'' (Inr ''3f2a''),
            Exec cmd_status ''/repo'' (Inr (text_lines ['' M a.txt''])),
            Exec cmd_stash_push ''/repo'' (Inr []),
            Exec (cmd_checkout ''dev'') ''/repo'' (Inr []),
            Exec cmd_stash_pop ''/repo'' (Inl other_error),
            Exec cmd_stash_pop ''/repo'' (Inl checkout_error),
            Logged other_error ''Switch branch failed'']))"
proof -
  have t: "trim (text_lines [''main'']) = ''main''" "trim (text_lines ['' M a.txt'']) \<noteq> []"
    by (simp_all add: text_lines_def trim_def is_ws_def)
  have c: "\<not> is_conflict other_error"
    by (simp add: is_conflict_def errorMsg_def other_error_def)
  have m: "message_text other_error = ''Command failed: git stash pop''"
    by (simp add: message_text_def other_error_def)
  show ?thesis
    using t c m
      switch_pop_failure_second_pop [where sh = scripted and req = sample_request
        and wp = "''/repo''" and bn = "''dev''" and gem = message_text
        and w = "[Inr (text_lines [''main'']), Inr ''3f2a'', Inr (text_lines ['' M a.txt'']),
                  Inr [], Inr [], Inl other_error, Inl checkout_error]"
        and oa = "text_lines [''main'']"
        and wa = "[Inr ''3f2a'', Inr (text_lines ['' M a.txt'']), Inr [], Inr [],
                   Inl other_error, Inl checkout_error]"
        and ob = "''3f2a''"
        and wb = "[Inr (text_lines ['' M a.txt'']), Inr [], Inr [], Inl other_error,
                   Inl checkout_error]"
        and oc = "text_lines ['' M a.txt'']"
        and wc = "[Inr [], Inr [], Inl other_error, Inl checkout_error]" and od = "[]"
        and wd = "[Inr [], Inl other_error, Inl checkout_error]" and oe = "[]"
        and we = "[Inl other_error, Inl checkout_error]" and e = other_error
        and wq = "[Inl checkout_error]" and r = "Inl checkout_error" and wr = "[]"]
    by (simp add: scripted_def sample_request_def)
qed



section \<open>Claims about the worktree listing\<close>

text \<open>
  C6 does not hold as stated: the output for a repository whose only worktree is on a
  detached head has one record, without a branch line, and the result has no entry at
  all, so no entry with \<open>isMain = true\<close>.
\<close>

theorem parse_worktrees_detached_no_main:
  "length (filter isMain (parse_worktrees
      (text_lines [''worktree /repo'', ''HEAD 3f2a'', ''detached'', []]))) \<noteq> 1"
  by (simp add: parse_worktrees_def text_lines_def startsWith_def no_current_def)

text \<open>
  C6, amended. For every tool output the result is the list of entries of the records
  that have both a path and a branch, in output order, with the first of them marked.
  So the entries with \<open>isMain = true\<close> are exactly the entry at position 0 of the result:
  an empty result has none, a non-empty result has exactly one, and it is the entry of
  the first record in output order that has both a path and a branch.
\<close>

theorem parse_worktrees_main_first:
  "parse_worktrees out = spec_worktrees out
   \<and> length (filter isMain (parse_worktrees out)) = (if parse_worktrees out = [] then 0 else 1)
   \<and> (\<forall>i < length (parse_worktrees out). isMain (parse_worktrees out ! i) = (i = 0))"
proof -
  have refines: "parse_worktrees out = spec_worktrees out"
    using parse_lines_records [of "split_nl out" no_current True]
    by (simp add: parse_worktrees_def spec_worktrees_def split: list.splits)
  consider "parse_worktrees out = []"
    | wt rest where "parse_worktrees out = wt # rest" "isMain wt" "\<forall>x\<in>set rest. \<not> isMain x"
    using parse_lines_first [of "split_nl out" no_current]
    by (auto simp add: parse_worktrees_def)
  then show ?thesis
  proof cases
    case 1
    then show ?thesis using refines by simp
  next
    case 2
    have "\<forall>i < length (wt # rest). isMain ((wt # rest) ! i) = (i = 0)"
      using 2(2,3) by (auto simp add: nth_Cons split: nat.splits)
    then show ?thesis using 2 refines by (simp add: filter_none)
  qed
qed

theorem parse_worktrees_main_first_witness:
  "length (filter isMain (parse_worktrees sample_worktrees)) = 1
   \<and> isMain (parse_worktrees sample_worktrees ! 0)
   \<and> \<not> isMain (parse_worktrees sample_worktrees ! 1)"
proof -
  have "length (parse_worktrees sample_worktrees) = 2"
    by (simp add: parse_sample_worktrees)
  then show ?thesis
    using parse_worktrees_main_first [of sample_worktrees] by auto
qed

text \<open>
  C8. In a detailed listing (path supplied, \<open>includeDetails\<close> set, the path is a
  repository, the enumeration succeeded) the response is always status 200 with one entry
  per parsed record, in the same order: entry \<open>i\<close> is the parsed record \<open>i\<close> updated from
  the outcome of its own status query alone. One status query is run per record, in its
  path. An entry whose query failed is the parsed record with \<open>hasChanges = false\<close> and
  \<open>changedFilesCount = 0\<close>.
\<close>

theorem list_details_failure_isolated:
  assumes "req_projectPath req = Some p" "p \<noteq> []" "truthy_flag (req_includeDetails req)"
      and "isGitRepo p w = (Inr True, wa)"
      and "sh cmd_worktree_list p wa = (Inr out, wb)"
      and "rs = status_results (snd (snd (listHandler gem isGitRepo sh req (w, []))))"
  shows "length rs = length (parse_worktrees out)
       \<and> fst (listHandler gem isGitRepo sh req (w, [])) =
           Response 200 (Worktrees (map2 enrich (parse_worktrees out) rs))
       \<and> snd (snd (listHandler gem isGitRepo sh req (w, []))) =
           Exec cmd_worktree_list p (Inr out)
             # map2 (\<lambda>wt r. Exec cmd_status (path wt) r) (parse_worktrees out) rs
       \<and> (\<forall>i < length rs. isl (rs ! i) \<longrightarrow>
             map2 enrich (parse_worktrees out) rs ! i =
               (parse_worktrees out ! i)\<lparr>hasChanges := Some False, changedFilesCount := Some 0\<rparr>)"
proof -
  let ?wts = "parse_worktrees out"
  let ?tr = "[Exec cmd_worktree_list p (Inr out)]"
  obtain rs' where rs': "length rs' = length ?wts"
      "fst (enrich_all sh ?wts (wb, ?tr)) = map2 enrich ?wts rs'"
      "snd (snd (enrich_all sh ?wts (wb, ?tr))) =
         ?tr @ map2 (\<lambda>wt r. Exec cmd_status (path wt) r) ?wts rs'"
    using enrich_all_results [of ?wts sh wb ?tr] by blast
  have h: "listHandler gem isGitRepo sh req (w, []) =
             (Response 200 (Worktrees (fst (enrich_all sh ?wts (wb, ?tr)))),
              snd (enrich_all sh ?wts (wb, ?tr)))"
    using assms(1-5)
    by (simp add: listHandler_def list_try_def execAsync_def Let_def case_prod_beta)
  have "rs = rs'"
    using assms(6) h rs'(1,3) status_results_map2 [of rs' ?wts] by simp
  moreover have "\<forall>i < length rs'. isl (rs' ! i) \<longrightarrow>
             map2 enrich ?wts rs' ! i =
               (?wts ! i)\<lparr>hasChanges := Some False, changedFilesCount := Some 0\<rparr>"
    using rs'(1) by (auto simp add: isl_def enrich_failed)
  ultimately show ?thesis
    using rs' h by simp
qed

theorem list_details_failure_isolated_witness:
  "listHandler message_text always_repo scripted sample_list_request
     ([Inr sample_worktrees, Inl other_error, Inr (text_lines ['' M a.txt'', ''?? b.txt''])], []) =
     (Response 200 (Worktrees
        [\<lparr>path = ''/repo'', branch = ''main'', isMain = True, hasChanges = Some False,
          changedFilesCount = Some 0\<rparr>,
         \<lparr>path = ''/repo/wt-b'', branch = ''feature'', isMain = False, hasChanges = Some True,
          changedFilesCount = Some 2\<rparr>]),
      ([], [Exec cmd_worktree_list ''/repo'' (Inr sample_worktrees),
            Exec cmd_status ''/repo'' (Inl other_error),
            Exec cmd_status ''/repo/wt-b'' (Inr (text_lines ['' M a.txt'', ''?? b.txt'']))]))"
proof -
  let ?run = "listHandler message_text always_repo scripted sample_list_request
     ([Inr sample_worktrees, Inl other_error, Inr (text_lines ['' M a.txt'', ''?? b.txt''])], [])"
  have tr: "snd ?run =
      ([], [Exec cmd_worktree_list ''/repo'' (Inr sample_worktrees),
            Exec cmd_status ''/repo'' (Inl other_error),
            Exec cmd_status ''/repo/wt-b'' (Inr (text_lines ['' M a.txt'', ''?? b.txt'']))])"
    by (simp add: listHandler_def list_try_def execAsync_def Let_def sample_list_request_def
          always_repo_def scripted_def truthy_flag_def parse_sample_worktrees)
  have e: "enrich wt (Inr (text_lines ['' M a.txt'', ''?? b.txt''])) =
             wt\<lparr>hasChanges := Some True, changedFilesCount := Some 2\<rparr>" for wt
    by (simp add: enrich_def text_lines_def trim_def is_ws_def Let_def)
  have "fst ?run = Response 200 (Worktrees (map2 enrich (parse_worktrees sample_worktrees)
          [Inl other_error, Inr (text_lines ['' M a.txt'', ''?? b.txt''])]))"
    using tr list_details_failure_isolated [where isGitRepo = always_repo and sh = scripted
        and req = sample_list_request and p = "''/repo''" and gem = message_text
        and w = "[Inr sample_worktrees, Inl other_error,
                  Inr (text_lines ['' M a.txt'', ''?? b.txt''])]"
        and wa = "[Inr sample_worktrees, Inl other_error,
                   Inr (text_lines ['' M a.txt'', ''?? b.txt''])]"
        and out = sample_worktrees
        and wb = "[Inl other_error, Inr (text_lines ['' M a.txt'', ''?? b.txt''])]"
        and rs = "[Inl other_error, Inr (text_lines ['' M a.txt'', ''?? b.txt''])]"]
    by (simp add: sample_list_request_def always_repo_def scripted_def truthy_flag_def
          status_results_def)
  then have "fst ?run = Response 200 (Worktrees
        [\<lparr>path = ''/repo'', branch = ''main'', isMain = True, hasChanges = Some False,
          changedFilesCount = Some 0\<rparr>,
         \<lparr>path = ''/repo/wt-b'', branch = ''feature'', isMain = False, hasChanges = Some True,
          changedFilesCount = Some 2\<rparr>])"
    by (simp add: parse_sample_worktrees enrich_failed e)
  then show ?thesis
    using tr by (simp add: prod_eq_iff)
qed

text \<open>
  C10. In every response of a listing with \<open>includeDetails\<close> set that carries worktrees,
  every entry has a changed-files count \<open>n\<close>, and its \<open>hasChanges\<close> is \<open>true\<close> exactly when
  \<open>n > 0\<close>, whether its status query succeeded or failed.
\<close>

theorem list_details_changes_iff_count:
  assumes "truthy_flag (req_includeDetails req)"
      and "fst (listHandler gem isGitRepo sh req s) = Response st (Worktrees wts)"
      and "wt \<in> set wts"
  shows "\<exists>n. changedFilesCount wt = Some n \<and> hasChanges wt = Some (0 < n)"
proof -
  have "wts = [] \<or> (\<exists>ws s'. wts = fst (enrich_all sh ws s'))"
    using assms(1,2)
    by (auto simp add: listHandler_def list_try_def Let_def case_prod_beta execAsync_def
          split: if_splits sum.splits bool.splits)
  then show ?thesis
    using assms(3) enrich_all_iff by auto
qed

theorem list_details_changes_iff_count_witness:
  "fst (listHandler message_text always_repo scripted sample_list_request
     ([Inr sample_worktrees, Inl other_error, Inr (text_lines ['' M a.txt'', ''?? b.txt''])], [])) =
     Response 200 (Worktrees
        [\<lparr>path = ''/repo'', branch = ''main'', isMain = True, hasChanges = Some False,
          changedFilesCount = Some 0\<rparr>,
         \<lparr>path = ''/repo/wt-b'', branch = ''feature'', isMain = False, hasChanges = Some True,
          changedFilesCount = Some 2\<rparr>])
   \<and> (\<exists>n. changedFilesCount \<lparr>path = ''/repo/wt-b'', branch = ''feature'', isMain = False,
              hasChanges = Some True, changedFilesCount = Some 2\<rparr> = Some n
          \<and> hasChanges \<lparr>path = ''/repo/wt-b'', branch = ''feature'', isMain = False,
              hasChanges = Some True, changedFilesCount = Some 2\<rparr> = Some (0 < n))"
proof -
  let ?run = "listHandler message_text always_repo scripted sample_list_request
     ([Inr sample_worktrees, Inl other_error, Inr (text_lines ['' M a.txt'', ''?? b.txt''])], [])"
  let ?b = "\<lparr>path = ''/repo/wt-b'', branch = ''feature'', isMain = False,
              hasChanges = Some True, changedFilesCount = Some (2::nat)\<rparr>"
  have r: "fst ?run = Response 200 (Worktrees
        [\<lparr>path = ''/repo'', branch = ''main'', isMain = True, hasChanges = Some False,
          changedFilesCount = Some 0\<rparr>, ?b])"
    by (simp add: listHandler_def list_try_def execAsync_def Let_def sample_list_request_def
          always_repo_def scripted_def truthy_flag_def parse_sample_worktrees enrich_def
          text_lines_def trim_def is_ws_def)
  have f: "truthy_flag (req_includeDetails sample_list_request)"
    by (simp add: sample_list_request_def truthy_flag_def)
  have m: "?b \<in> set [\<lparr>path = ''/repo'', branch = ''main'', isMain = True,
          hasChanges = Some False, changedFilesCount = Some 0\<rparr>, ?b]"
    by simp
  show ?thesis
    using r list_details_changes_iff_count [OF f r m] by simp
qed

section \<open>Claims about the branch listing\<close>

text \<open>
  C7 does not hold as stated. The name of an entry is the trimmed line, and \<open>trim\<close>
  removes the no-break space, which a branch name may begin with. A repository with the
  two branches \<open>dev\<close> and no-break space followed by \<open>dev\<close>, on branch \<open>dev\<close>, is
  listed on two different lines, and both entries get the name \<open>dev\<close> and
  \<open>isCurrent = true\<close>.
\<close>

theorem list_branches_trimmed_names_two_current:
  "fst (listBranchesHandler message_text scripted (Some ''/repo'')
          ([Inr (text_lines [''dev'']), Inr (text_lines [''dev'', CHR 0xA0 # ''dev''])], [])) =
     Response 200 (Branches ''dev''
       [\<lparr>name = ''dev'', isCurrent = True, isRemote = False\<rparr>,
        \<lparr>name = ''dev'', isCurrent = True, isRemote = False\<rparr>])
   \<and> ''dev'' \<noteq> CHR 0xA0 # ''dev''
   \<and> \<not> length (filter isCurrent
          [\<lparr>name = ''dev'', isCurrent = True, isRemote = False\<rparr>,
           \<lparr>name = ''dev'', isCurrent = True, isRemote = False\<rparr>]) \<le> 1"
  by (simp add: listBranchesHandler_def list_branches_try_def execAsync_def scripted_def
        branch_infos_def text_lines_def trim_def is_ws_def Let_def)

text \<open>
  C7, amended. In every branch-listing result the reported current branch is the trimmed
  output of the current-branch query, the names of the entries are the trimmed non-blank
  lines of the trimmed enumeration output, in order, an entry has \<open>isCurrent = true\<close>
  exactly when its name is the current branch, and the number of such entries is the
  number of times that name occurs among the entries. So when the trimmed names are
  pairwise distinct, at most one entry has \<open>isCurrent = true\<close>.
\<close>

theorem list_branches_current_consistent:
  assumes "fst (listBranchesHandler gem sh wp (w, [])) = Response st (Branches cur bs)"
  shows "(\<exists>oa wa. sh cmd_current_branch (str_of wp) w = (Inr oa, wa) \<and> cur = trim oa
            \<and> (\<exists>ob wb. sh cmd_branch_list (str_of wp) wa = (Inr ob, wb)
                 \<and> map name bs = map trim (filter (\<lambda>l. trim l \<noteq> []) (split_nl (trim ob)))))
       \<and> (\<forall>b\<in>set bs. isCurrent b = (name b = cur))
       \<and> length (filter isCurrent bs) = count_list (map name bs) cur
       \<and> (distinct (map name bs) \<longrightarrow> length (filter isCurrent bs) \<le> 1)"
proof -
  obtain oa wa ob wb where q: "sh cmd_current_branch (str_of wp) w = (Inr oa, wa)"
      and cur: "cur = trim oa"
      and q2: "sh cmd_branch_list (str_of wp) wa = (Inr ob, wb)"
      and bs: "bs = branch_infos cur ob"
    using assms
    by (auto simp add: listBranchesHandler_def list_branches_try_def execAsync_def Let_def
          split: if_splits prod.splits sum.splits)
  have n: "map name bs = map trim (filter (\<lambda>l. trim l \<noteq> []) (split_nl (trim ob)))"
    using bs by (simp add: branch_infos_def comp_def)
  have a: "\<forall>b\<in>set bs. isCurrent b = (name b = cur)"
    using bs branch_infos_current by blast
  have b: "length (filter isCurrent bs) = count_list (map name bs) cur"
    using a by (rule count_current)
  have c: "distinct (map name bs) \<longrightarrow> length (filter isCurrent bs) \<le> 1"
    using b distinct_count_le [of "map name bs" cur] by simp
  show ?thesis
    using q cur q2 n a b c by blast
qed

theorem list_branches_current_consistent_witness:
  "fst (listBranchesHandler message_text scripted (Some ''/repo'')
          ([Inr (text_lines [''dev'']), Inr (text_lines [''main'', ''dev''])], [])) =
     Response 200 (Branches ''dev''
       [\<lparr>name = ''main'', isCurrent = False, isRemote = False\<rparr>,
        \<lparr>name = ''dev'', isCurrent = True, isRemote = False\<rparr>])
   \<and> length (filter isCurrent
          [\<lparr>name = ''main'', isCurrent = False, isRemote = False\<rparr>,
           \<lparr>name = ''dev'', isCurrent = True, isRemote = False\<rparr>]) \<le> 1"
proof -
  have r: "fst (listBranchesHandler message_text scripted (Some ''/repo'')
          ([Inr (text_lines [''dev'']), Inr (text_lines [''main'', ''dev''])], [])) =
     Response 200 (Branches ''dev''
       [\<lparr>name = ''main'', isCurrent = False, isRemote = False\<rparr>,
        \<lparr>name = ''dev'', isCurrent = True, isRemote = False\<rparr>])"
    by (simp add: listBranchesHandler_def list_branches_try_def execAsync_def scripted_def
        branch_infos_def text_lines_def trim_def is_ws_def Let_def)
  have d: "distinct (map name [\<lparr>name = ''main'', isCurrent = False, isRemote = False\<rparr>,
        \<lparr>name = ''dev'', isCurrent = True, isRemote = False\<rparr>])"
    by simp
  show ?thesis
    using r d list_branches_current_consistent [OF r] by blast
qed

end
